theory Spec2Isabelle
  imports Complex_Main
begin

section \<open>Shared data\<close>

text \<open>
  The three core modules (\<^verbatim>\<open>core/rules.py\<close>, \<^verbatim>\<open>core/negotiation.py\<close>,
  \<^verbatim>\<open>core/calculator.py\<close>) exchange Python dictionaries. A dictionary is modelled as a
  record whose optional keys are fields of type \<open>option\<close>; \<^verbatim>\<open>d.get(k, v)\<close> is a
  \<open>case\<close> on the field. Python integers are \<open>int\<close>, Python floats are modelled as
  exact \<open>real\<close> numbers (binary rounding error, infinities and NaN are outside the model).
  The free-text entries of the dictionaries (\<^verbatim>\<open>justificacion\<close>, \<^verbatim>\<open>mensaje\<close>) carry no
  decision and are left out.

  The specification names a closed set of typed failures. None of the modelled source
  functions contains a \<^verbatim>\<open>raise\<close>; the type below is what a call contract of the form
  \<open>error + result\<close> ranges over.
\<close>

datatype error = InvalidCircumstance | UnknownMatrixCode | InvalidWeight | NoLiabilityToCalculate

text \<open>
  The responsibility dictionary, as produced by the matrix
  (\<^verbatim>\<open>responsable\<close>, \<^verbatim>\<open>porcentaje_a\<close>, \<^verbatim>\<open>porcentaje_b\<close>, \<^verbatim>\<open>codigo_matriz\<close>) and by the
  negotiator (\<^verbatim>\<open>responsable\<close>, \<^verbatim>\<open>porcentaje_a\<close>, \<^verbatim>\<open>porcentaje_b\<close>, \<^verbatim>\<open>iteraciones\<close>,
  \<^verbatim>\<open>convergio\<close>).
\<close>

record resultado =
  responsable :: string
  porcentaje_a :: "int option"
  porcentaje_b :: "int option"
  codigo_matriz :: "string option"
  iteraciones :: "nat option"
  convergio :: "bool option"

section \<open>MatrizResponsabilidad (core/rules.py)\<close>

text \<open>\<^verbatim>\<open>self.matriz\<close>: the 15 x 15 table, row = circumstance of A, column = circumstance of B.\<close>

definition matriz :: "string list list" where
  "matriz = [
    [''NA'', ''B'', ''A'', ''B'', ''B'', ''A'', ''NA'', ''B'', ''B'', ''NA'', ''NA'', ''B'', ''B'', ''A'', ''B''],
    [''A'', ''NA'', ''A'', ''B'', ''NA'', ''A'', ''NA'', ''B'', ''NA'', ''A'', ''A'', ''A'', ''NA'', ''A'', ''A''],
    [''B'', ''B'', ''NA'', ''B'', ''NA'', ''B'', ''NA'', ''B'', ''B'', ''B'', ''B'', ''B'', ''B'', ''B'', ''NA''],
    [''A'', ''A'', ''A'', ''C'', ''C'', ''A'', ''A'', ''B'', ''B'', ''A'', ''A'', ''A'', ''B'', ''A'', ''B''],
    [''A'', ''NA'', ''NA'', ''C'', ''C'', ''A'', ''NA'', ''C'', ''NA'', ''A'', ''A'', ''A'', ''B'', ''NA'', ''A''],
    [''B'', ''B'', ''A'', ''B'', ''B'', ''NA'', ''NA'', ''B'', ''C'', ''B'', ''B'', ''B'', ''B'', ''A'', ''A''],
    [''NA'', ''NA'', ''NA'', ''B'', ''NA'', ''NA'', ''NA'', ''NA'', ''NA'', ''NA'', ''NA'', ''NA'', ''NA'', ''NA'', ''A''],
    [''A'', ''A'', ''A'', ''A'', ''C'', ''A'', ''NA'', ''C'', ''A'', ''A'', ''A'', ''A'', ''B'', ''A'', ''A''],
    [''A'', ''NA'', ''A'', ''A'', ''NA'', ''C'', ''NA'', ''B'', ''C'', ''A'', ''A'', ''A'', ''B'', ''C'', ''A''],
    [''NA'', ''B'', ''A'', ''B'', ''B'', ''A'', ''NA'', ''B'', ''B'', ''C'', ''C'', ''A'', ''B'', ''A'', ''A''],
    [''NA'', ''B'', ''A'', ''B'', ''B'', ''A'', ''NA'', ''B'', ''B'', ''C'', ''NA'', ''A'', ''B'', ''A'', ''A''],
    [''A'', ''B'', ''A'', ''B'', ''B'', ''A'', ''NA'', ''B'', ''B'', ''B'', ''B'', ''NA'', ''B'', ''A'', ''A''],
    [''A'', ''NA'', ''A'', ''A'', ''A'', ''A'', ''NA'', ''A'', ''A'', ''A'', ''A'', ''A'', ''NA'', ''A'', ''A''],
    [''B'', ''B'', ''A'', ''B'', ''NA'', ''B'', ''NA'', ''B'', ''C'', ''B'', ''B'', ''B'', ''B'', ''C'', ''A''],
    [''B'', ''B'', ''NA'', ''A'', ''B'', ''B'', ''B'', ''B'', ''B'', ''B'', ''B'', ''B'', ''B'', ''B'', ''NA'']
  ]"

text \<open>
  \<^verbatim>\<open>_interpretar_codigo\<close>: the \<^verbatim>\<open>if/elif\<close> chain over the cell code. The two
  circumstances only feed the justification text. An unknown code is reported by a
  dictionary whose \<^verbatim>\<open>responsable\<close> is \<^verbatim>\<open>"error"\<close>, not by an exception.
\<close>

definition interpretar_codigo :: "string \<Rightarrow> int \<Rightarrow> int \<Rightarrow> resultado" where
  "interpretar_codigo codigo circunstancia_a circunstancia_b =
     (if codigo = ''A'' then
        \<lparr>responsable = ''vehiculo_a'', porcentaje_a = Some 100, porcentaje_b = Some 0,
         codigo_matriz = Some ''A'', iteraciones = None, convergio = None\<rparr>
      else if codigo = ''B'' then
        \<lparr>responsable = ''vehiculo_b'', porcentaje_a = Some 0, porcentaje_b = Some 100,
         codigo_matriz = Some ''B'', iteraciones = None, convergio = None\<rparr>
      else if codigo = ''C'' then
        \<lparr>responsable = ''compartida'', porcentaje_a = Some 50, porcentaje_b = Some 50,
         codigo_matriz = Some ''C'', iteraciones = None, convergio = None\<rparr>
      else if codigo = ''NA'' then
        \<lparr>responsable = ''no_aplica'', porcentaje_a = None, porcentaje_b = None,
         codigo_matriz = Some ''NA'', iteraciones = None, convergio = None\<rparr>
      else if codigo = ''NRD'' then
        \<lparr>responsable = ''indeterminado'', porcentaje_a = None, porcentaje_b = None,
         codigo_matriz = Some ''NRD'', iteraciones = None, convergio = None\<rparr>
      else
        \<lparr>responsable = ''error'', porcentaje_a = None, porcentaje_b = None,
         codigo_matriz = Some codigo, iteraciones = None, convergio = None\<rparr>)"

text \<open>
  \<^verbatim>\<open>determinar_responsabilidad\<close>: range check, then the cell at
  \<^verbatim>\<open>[circunstancia_a - 1][circunstancia_b - 1]\<close>. Out-of-range input returns the
  \<^verbatim>\<open>"error"\<close> dictionary (without \<^verbatim>\<open>codigo_matriz\<close>) before any indexing happens.
\<close>

definition determinar_responsabilidad :: "int \<Rightarrow> int \<Rightarrow> resultado" where
  "determinar_responsabilidad circunstancia_a circunstancia_b =
     (if \<not> (1 \<le> circunstancia_a \<and> circunstancia_a \<le> 15 \<and>
             1 \<le> circunstancia_b \<and> circunstancia_b \<le> 15) then
        \<lparr>responsable = ''error'', porcentaje_a = None, porcentaje_b = None,
         codigo_matriz = None, iteraciones = None, convergio = None\<rparr>
      else
        interpretar_codigo
          (matriz ! nat (circunstancia_a - 1) ! nat (circunstancia_b - 1))
          circunstancia_a circunstancia_b)"

section \<open>Python's rounding\<close>

text \<open>
  \<^verbatim>\<open>round(x)\<close> on a float returns the nearest integer and resolves a tie towards the
  even neighbour; \<^verbatim>\<open>round(x, 2)\<close> does the same at the second decimal place. Both are
  taken on the exact value: a double that only approximates a decimal tie (2.675 is stored
  slightly below it) is rounded by Python according to its stored value.
\<close>

definition py_round :: "real \<Rightarrow> int" where
  "py_round x =
     (let f = \<lfloor>x\<rfloor>; r = x - of_int f
      in if r < 1/2 then f else if 1/2 < r then f + 1 else if even f then f else f + 1)"

definition py_round2 :: "real \<Rightarrow> real" where
  "py_round2 x = of_int (py_round (x * 100)) / 100"

section \<open>CalculadorIndemnizacion (core/calculator.py)\<close>

record poliza =
  tipo_cobertura :: "string option"
  deducible_porcentaje :: "real option"
  deducible_minimo :: "real option"

text \<open>
  \<^verbatim>\<open>danos\<close> holds one optional sub-dictionary per vehicle with an optional \<^verbatim>\<open>monto\<close>;
  both levels default to 0, so one optional amount per vehicle carries the same information.
\<close>

record danos =
  monto_vehiculo_a :: "real option"
  monto_vehiculo_b :: "real option"

record pago =
  pagador :: string
  receptor :: string
  monto_bruto :: real
  deducible :: real
  monto_neto :: real
  moneda :: string
  factor_cobertura :: real

record resumen =
  total_danos_a :: real
  total_danos_b :: real
  porcentaje_responsabilidad_a :: int
  porcentaje_responsabilidad_b :: int

record indemnizacion =
  indemnizaciones :: "pago list"
  resumen :: resumen

text \<open>\<^verbatim>\<open>_calcular_factor_cobertura\<close>; a policy without \<^verbatim>\<open>tipo_cobertura\<close> counts as \<^verbatim>\<open>"basica"\<close>.\<close>

definition calcular_factor_cobertura :: "poliza \<Rightarrow> real" where
  "calcular_factor_cobertura p =
     (let tipo = (case tipo_cobertura p of None \<Rightarrow> ''basica'' | Some t \<Rightarrow> t)
      in if tipo = ''premium'' then 1
         else if tipo = ''estandar'' then 9/10
         else if tipo = ''basica'' then 8/10
         else 7/10)"

text \<open>\<^verbatim>\<open>_calcular_deducible\<close>.\<close>

definition calcular_deducible :: "poliza \<Rightarrow> real \<Rightarrow> real" where
  "calcular_deducible p monto =
     (let porcentaje = (case deducible_porcentaje p of None \<Rightarrow> 0 | Some v \<Rightarrow> v);
          minimo = (case deducible_minimo p of None \<Rightarrow> 0 | Some v \<Rightarrow> v);
          deducible_calculado = monto * (porcentaje / 100)
      in max deducible_calculado minimo)"

text \<open>
  \<^verbatim>\<open>calcular_indemnizacion\<close>. The body reads the percentages with default 0 and never
  inspects \<^verbatim>\<open>responsable\<close> (it is only logged); every path ends in the \<^verbatim>\<open>return\<close> of the
  result dictionary, so the call contract only ever takes the \<open>Inr\<close> side.
\<close>

definition calcular_indemnizacion ::
  "resultado \<Rightarrow> poliza \<Rightarrow> poliza \<Rightarrow> danos \<Rightarrow> error + indemnizacion" where
  "calcular_indemnizacion responsabilidad poliza_a poliza_b dn =
     (let pct_a = (case porcentaje_a responsabilidad of None \<Rightarrow> 0 | Some v \<Rightarrow> v);
          pct_b = (case porcentaje_b responsabilidad of None \<Rightarrow> 0 | Some v \<Rightarrow> v);
          danos_a = (case monto_vehiculo_a dn of None \<Rightarrow> 0 | Some v \<Rightarrow> v);
          danos_b = (case monto_vehiculo_b dn of None \<Rightarrow> 0 | Some v \<Rightarrow> v);
          factor_cobertura_a = calcular_factor_cobertura poliza_a;
          factor_cobertura_b = calcular_factor_cobertura poliza_b;
          indemnizacion_a_b = (of_int pct_a / 100) * danos_b * factor_cobertura_a;
          indemnizacion_b_a = (of_int pct_b / 100) * danos_a * factor_cobertura_b;
          deducible_a = calcular_deducible poliza_a indemnizacion_b_a;
          deducible_b = calcular_deducible poliza_b indemnizacion_a_b;
          indemnizacion_neta_a = max 0 (indemnizacion_b_a - deducible_a);
          indemnizacion_neta_b = max 0 (indemnizacion_a_b - deducible_b)
      in Inr \<lparr>indemnizaciones =
                [\<lparr>pagador = ''vehiculo_a'', receptor = ''vehiculo_b'',
                  monto_bruto = py_round2 indemnizacion_a_b,
                  deducible = py_round2 deducible_b,
                  monto_neto = py_round2 indemnizacion_neta_b,
                  moneda = ''COP'', factor_cobertura = factor_cobertura_a\<rparr>,
                 \<lparr>pagador = ''vehiculo_b'', receptor = ''vehiculo_a'',
                  monto_bruto = py_round2 indemnizacion_b_a,
                  deducible = py_round2 deducible_a,
                  monto_neto = py_round2 indemnizacion_neta_a,
                  moneda = ''COP'', factor_cobertura = factor_cobertura_b\<rparr>],
               resumen =
                 \<lparr>total_danos_a = py_round2 danos_a, total_danos_b = py_round2 danos_b,
                  porcentaje_responsabilidad_a = pct_a,
                  porcentaje_responsabilidad_b = pct_b\<rparr>\<rparr>)"

text \<open>
  Step 6 of \<^verbatim>\<open>MotorPrincipal.procesar_siniestro\<close> (core/engine.py): \<^verbatim>\<open>indemnizacion\<close>
  starts as \<^verbatim>\<open>None\<close> and the calculator is called only when \<^verbatim>\<open>responsable\<close> is neither
  \<^verbatim>\<open>"no_aplica"\<close> nor \<^verbatim>\<open>"indeterminado"\<close>.
\<close>

definition procesar_siniestro_indemnizacion ::
  "resultado \<Rightarrow> poliza \<Rightarrow> poliza \<Rightarrow> danos \<Rightarrow> error + indemnizacion option" where
  "procesar_siniestro_indemnizacion resultado_responsabilidad poliza_a poliza_b dn =
     (if responsable resultado_responsabilidad \<notin> set [''no_aplica'', ''indeterminado''] then
        (case calcular_indemnizacion resultado_responsabilidad poliza_a poliza_b dn of
           Inl e \<Rightarrow> Inl e
         | Inr r \<Rightarrow> Inr (Some r))
      else Inr None)"

section \<open>NegociadorResponsabilidad (core/negotiation.py)\<close>

text \<open>\<^verbatim>\<open>self.max_iteraciones\<close> and \<^verbatim>\<open>self.umbral_convergencia\<close> as set by \<^verbatim>\<open>__init__\<close>.\<close>

definition max_iteraciones :: nat where
  "max_iteraciones = 5"

definition umbral_convergencia :: real where
  "umbral_convergencia = 5 / 100"

text \<open>The distribution dictionary (\<^verbatim>\<open>porcentaje_a\<close>, \<^verbatim>\<open>porcentaje_b\<close>) held during a run.\<close>

record distribucion =
  dist_a :: int
  dist_b :: int

text \<open>
  The weight dictionaries returned by \<^verbatim>\<open>_calcular_peso_evidencias\<close> and
  \<^verbatim>\<open>_calcular_peso_documentos\<close>; \<open>total\<close> is \<^verbatim>\<open>total_evidencias\<close> resp.
  \<^verbatim>\<open>total_documentos\<close>.
\<close>

record pesos =
  peso_a :: real
  peso_b :: real
  total :: nat

text \<open>
  The \<^verbatim>\<open>analisis\<close> of an evidence item and the \<^verbatim>\<open>clasificacion\<close> of a document are
  dictionaries read at the keys \<^verbatim>\<open>responsabilidad_sugerida\<close> and \<^verbatim>\<open>confianza\<close>.
\<close>

record sugerencia =
  responsabilidad_sugerida :: "string option"
  confianza :: "real option"

record evidencia =
  procesada :: "bool option"
  analisis :: "sugerencia option"

record documento =
  clasificacion :: "sugerencia option"

text \<open>The empty dictionary that \<^verbatim>\<open>.get("analisis", {})\<close> falls back to.\<close>

definition sin_sugerencia :: sugerencia where
  "sin_sugerencia = \<lparr>responsabilidad_sugerida = None, confianza = None\<rparr>"

text \<open>The read \<^verbatim>\<open>.get("confianza", 0.5)\<close> that both aggregation loops perform.\<close>

definition confianza_de :: "sugerencia \<Rightarrow> real" where
  "confianza_de s = (case confianza s of None \<Rightarrow> 1/2 | Some c \<Rightarrow> c)"

text \<open>The local table \<^verbatim>\<open>pesos\<close> of \<^verbatim>\<open>_distribucion_inicial\<close>.\<close>

definition pesos_gravedad :: "int \<Rightarrow> real option" where
  "pesos_gravedad = map_of
     [(1, 19/2), (2, 8), (3, 15/2), (4, 9), (5, 17/2), (6, 7), (7, 13/2), (8, 15/2),
      (9, 6), (10, 7), (11, 6), (12, 9), (13, 10), (14, 5), (15, 2)]"

text \<open>
  \<^verbatim>\<open>_distribucion_inicial\<close>: A's share comes from B's severity weight and vice versa; both
  are rounded separately and the residual to 100 goes to A.
\<close>

definition distribucion_inicial :: "int \<Rightarrow> int \<Rightarrow> distribucion" where
  "distribucion_inicial circunstancia_a circunstancia_b =
     (let gravedad_a = (case pesos_gravedad circunstancia_a of None \<Rightarrow> 5 | Some w \<Rightarrow> w);
          gravedad_b = (case pesos_gravedad circunstancia_b of None \<Rightarrow> 5 | Some w \<Rightarrow> w);
          total_peso = gravedad_a + gravedad_b;
          pct_a = (if total_peso > 0 then py_round ((gravedad_b / total_peso) * 100) else 50);
          pct_b = (if total_peso > 0 then py_round ((gravedad_a / total_peso) * 100) else 50);
          pct_a = (if pct_a + pct_b \<noteq> 100 then pct_a + (100 - (pct_a + pct_b)) else pct_a)
      in \<lparr>dist_a = pct_a, dist_b = pct_b\<rparr>)"

text \<open>
  The body of the \<^verbatim>\<open>for\<close> loop of \<^verbatim>\<open>_calcular_peso_evidencias\<close> on the running
  \<^verbatim>\<open>(peso_a, peso_b, total_evidencias)\<close>. An item that is not \<^verbatim>\<open>procesada\<close> is skipped
  by \<^verbatim>\<open>continue\<close>.
\<close>

definition paso_evidencia :: "real \<times> real \<times> nat \<Rightarrow> evidencia \<Rightarrow> real \<times> real \<times> nat" where
  "paso_evidencia acc e =
     (case acc of (pa, pb, n) \<Rightarrow>
        if \<not> (case procesada e of None \<Rightarrow> False | Some p \<Rightarrow> p) then (pa, pb, n)
        else
          let an = (case analisis e of None \<Rightarrow> sin_sugerencia | Some a \<Rightarrow> a);
              conf = confianza_de an
          in (case responsabilidad_sugerida an of
                None \<Rightarrow> (pa, pb, n + 1)
              | Some s \<Rightarrow>
                  if s = ''vehiculo_a'' then (pa, pb + conf, n + 1)
                  else if s = ''vehiculo_b'' then (pa + conf, pb, n + 1)
                  else if s = ''compartida'' then (pa + conf * (1/2), pb + conf * (1/2), n + 1)
                  else (pa, pb, n + 1)))"

text \<open>\<^verbatim>\<open>_calcular_peso_evidencias\<close>: the loop, then the division by the number of counted items.\<close>

definition calcular_peso_evidencias :: "evidencia list \<Rightarrow> pesos" where
  "calcular_peso_evidencias evidencias =
     (case foldl paso_evidencia (0, 0, 0) evidencias of (pa, pb, n) \<Rightarrow>
        if n > 0 then \<lparr>peso_a = pa / of_nat n, peso_b = pb / of_nat n, total = n\<rparr>
        else \<lparr>peso_a = pa, peso_b = pb, total = n\<rparr>)"

text \<open>
  The body of the \<^verbatim>\<open>for\<close> loop of \<^verbatim>\<open>_calcular_peso_documentos\<close>. A document whose
  confidence is below 0.3 is skipped by \<^verbatim>\<open>continue\<close>.
\<close>

definition paso_documento :: "real \<times> real \<times> nat \<Rightarrow> documento \<Rightarrow> real \<times> real \<times> nat" where
  "paso_documento acc d =
     (case acc of (pa, pb, n) \<Rightarrow>
        let cl = (case clasificacion d of None \<Rightarrow> sin_sugerencia | Some c \<Rightarrow> c);
            conf = confianza_de cl
        in if conf < 3/10 then (pa, pb, n)
           else (case responsabilidad_sugerida cl of
                   None \<Rightarrow> (pa, pb, n + 1)
                 | Some s \<Rightarrow>
                     if s = ''vehiculo_a'' then (pa, pb + conf, n + 1)
                     else if s = ''vehiculo_b'' then (pa + conf, pb, n + 1)
                     else if s = ''compartida'' then (pa + conf * (1/2), pb + conf * (1/2), n + 1)
                     else (pa, pb, n + 1)))"

definition calcular_peso_documentos :: "documento list \<Rightarrow> pesos" where
  "calcular_peso_documentos documentos =
     (case foldl paso_documento (0, 0, 0) documentos of (pa, pb, n) \<Rightarrow>
        if n > 0 then \<lparr>peso_a = pa / of_nat n, peso_b = pb / of_nat n, total = n\<rparr>
        else \<lparr>peso_a = pa, peso_b = pb, total = n\<rparr>)"

text \<open>
  \<^verbatim>\<open>_ajustar_distribucion\<close>: blend, renormalise, round, residual to A. The coefficients
  are the exact decimals; in binary doubles \<^verbatim>\<open>1.0 - 0.3 - 0.2\<close> is 0.49999999999999994 and
  the quotients are rounded, so a blend that lands within that error of a tie can be
  rounded to the other neighbour by the code.
\<close>

definition ajustar_distribucion :: "distribucion \<Rightarrow> pesos \<Rightarrow> pesos \<Rightarrow> distribucion" where
  "ajustar_distribucion d peso_evidencias peso_documentos =
     (let factor_evidencias = 3/10;
          factor_documentos = 2/10;
          factor_distribucion_actual = 1 - factor_evidencias - factor_documentos;
          mezcla_a = of_int (dist_a d) * factor_distribucion_actual +
                     peso_a peso_evidencias * 100 * factor_evidencias +
                     peso_a peso_documentos * 100 * factor_documentos;
          mezcla_b = of_int (dist_b d) * factor_distribucion_actual +
                     peso_b peso_evidencias * 100 * factor_evidencias +
                     peso_b peso_documentos * 100 * factor_documentos;
          suma = mezcla_a + mezcla_b;
          pct_a = (if suma > 0 then py_round ((mezcla_a / suma) * 100) else 50);
          pct_b = (if suma > 0 then py_round ((mezcla_b / suma) * 100) else 50);
          pct_a = (if pct_a + pct_b \<noteq> 100 then pct_a + (100 - (pct_a + pct_b)) else pct_a)
      in \<lparr>dist_a = pct_a, dist_b = pct_b\<rparr>)"

text \<open>\<^verbatim>\<open>_converge\<close>: the integer difference of the two A-shares against the float threshold.\<close>

definition converge :: "distribucion \<Rightarrow> distribucion \<Rightarrow> bool" where
  "converge anterior actual \<longleftrightarrow>
     of_int \<bar>dist_a anterior - dist_a actual\<bar> \<le> umbral_convergencia"

text \<open>
  The \<^verbatim>\<open>while\<close> loop of \<^verbatim>\<open>negociar\<close> on the pair \<^verbatim>\<open>(iteracion, distribucion_actual)\<close>:
  a \<^verbatim>\<open>break\<close> on convergence leaves the counter as it is, otherwise it is incremented.
\<close>

function bucle_negociacion :: "pesos \<Rightarrow> pesos \<Rightarrow> nat \<Rightarrow> distribucion \<Rightarrow> nat \<times> distribucion" where
  "bucle_negociacion peso_evidencias peso_documentos iteracion distribucion_actual =
     (if iteracion < max_iteraciones then
        (if converge distribucion_actual
              (ajustar_distribucion distribucion_actual peso_evidencias peso_documentos)
         then (iteracion, ajustar_distribucion distribucion_actual peso_evidencias peso_documentos)
         else bucle_negociacion peso_evidencias peso_documentos (iteracion + 1)
                (ajustar_distribucion distribucion_actual peso_evidencias peso_documentos))
      else (iteracion, distribucion_actual))"
  by pat_completeness auto
termination
  by (relation "measure (\<lambda>(pe, pd, i, d). max_iteraciones - i)") auto

declare bucle_negociacion.simps [simp del]

text \<open>
  \<^verbatim>\<open>negociar\<close>: seed, weights, loop, classification. No validation of the inputs takes
  place and no statement raises. The one call that can fail is Python's \<^verbatim>\<open>round\<close>, which
  raises on an infinity or a NaN; such a value arises only when the float arithmetic
  overflows (a confidence of the order of 1e308, or an infinite one). The reals have no such
  values, so the definition describes the calls whose arithmetic stays finite, and there
  every path reaches the \<^verbatim>\<open>return\<close>.
\<close>

definition negociar ::
  "int \<Rightarrow> int \<Rightarrow> documento list \<Rightarrow> evidencia list \<Rightarrow> error + resultado" where
  "negociar circunstancia_a circunstancia_b documentos evidencias =
     (let distribucion_seed = distribucion_inicial circunstancia_a circunstancia_b;
          peso_evidencias = calcular_peso_evidencias evidencias;
          peso_documentos = calcular_peso_documentos documentos
      in (case bucle_negociacion peso_evidencias peso_documentos 0 distribucion_seed of
            (iteracion, distribucion_actual) \<Rightarrow>
              Inr \<lparr>responsable =
                     (if dist_a distribucion_actual \<ge> 90 then ''vehiculo_a''
                      else if dist_b distribucion_actual \<ge> 90 then ''vehiculo_b''
                      else ''compartida''),
                   porcentaje_a = Some (dist_a distribucion_actual),
                   porcentaje_b = Some (dist_b distribucion_actual),
                   codigo_matriz = None,
                   iteraciones = Some iteracion,
                   convergio = Some (iteracion < max_iteraciones)\<rparr>))"

section \<open>The cross-accumulation rule as a specification\<close>

text \<open>
  The following four definitions are not translations of source functions. They state
  the aggregation rule of claim C10 in closed form, to be compared with the two loops
  above: what one counted item contributes to the pair (weight of A, weight of B), which
  items of a list are counted, and the weights as sums divided by the number of counted
  items.
\<close>

definition aporte_cruzado :: "sugerencia \<Rightarrow> real \<times> real" where
  "aporte_cruzado s =
     (if responsabilidad_sugerida s = Some ''vehiculo_a'' then (0, confianza_de s)
      else if responsabilidad_sugerida s = Some ''vehiculo_b'' then (confianza_de s, 0)
      else if responsabilidad_sugerida s = Some ''compartida''
        then (confianza_de s / 2, confianza_de s / 2)
      else (0, 0))"

definition evidencias_contadas :: "evidencia list \<Rightarrow> sugerencia list" where
  "evidencias_contadas evidencias =
     map (\<lambda>e. case analisis e of None \<Rightarrow> sin_sugerencia | Some a \<Rightarrow> a)
       (filter (\<lambda>e. procesada e = Some True) evidencias)"

definition documentos_contados :: "documento list \<Rightarrow> sugerencia list" where
  "documentos_contados documentos =
     filter (\<lambda>s. 3/10 \<le> confianza_de s)
       (map (\<lambda>d. case clasificacion d of None \<Rightarrow> sin_sugerencia | Some c \<Rightarrow> c) documentos)"

definition pesos_cruzados :: "sugerencia list \<Rightarrow> pesos" where
  "pesos_cruzados ss =
     (if length ss > 0 then
        \<lparr>peso_a = sum_list (map (\<lambda>s. fst (aporte_cruzado s)) ss) / of_nat (length ss),
         peso_b = sum_list (map (\<lambda>s. snd (aporte_cruzado s)) ss) / of_nat (length ss),
         total = length ss\<rparr>
      else \<lparr>peso_a = 0, peso_b = 0, total = 0\<rparr>)"

section \<open>Properties of the matrix\<close>

lemma matriz_filas: "length matriz = 15"
  by (simp add: matriz_def)

lemma matriz_columnas: "\<forall>fila \<in> set matriz. length fila = 15"
  by (simp add: matriz_def)

lemma matriz_codigos:
  "\<forall>fila \<in> set matriz. \<forall>c \<in> set fila. c = ''A'' \<or> c = ''B'' \<or> c = ''C'' \<or> c = ''NA''"
  by (simp add: matriz_def)

lemma celda_codigo:
  assumes "i < 15" and "j < 15"
  shows "matriz ! i ! j = ''A'' \<or> matriz ! i ! j = ''B'' \<or> matriz ! i ! j = ''C'' \<or>
         matriz ! i ! j = ''NA''"
proof -
  from assms(1) have fila: "matriz ! i \<in> set matriz"
    by (simp add: matriz_filas)
  with matriz_columnas have "length (matriz ! i) = 15"
    by blast
  with assms(2) have "matriz ! i ! j \<in> set (matriz ! i)"
    by simp
  with fila matriz_codigos show ?thesis
    by blast
qed

lemma interpretar_codigo_tabla:
  assumes "c = ''A'' \<or> c = ''B'' \<or> c = ''C'' \<or> c = ''NA''"
  shows "responsable (interpretar_codigo c a b) \<noteq> ''indeterminado'' \<and>
         responsable (interpretar_codigo c a b) \<noteq> ''error'' \<and>
         codigo_matriz (interpretar_codigo c a b) = Some c"
  using assms by (auto simp: interpretar_codigo_def)

lemma celda_1_1:
  "determinar_responsabilidad 1 1 =
     \<lparr>responsable = ''no_aplica'', porcentaje_a = None, porcentaje_b = None,
      codigo_matriz = Some ''NA'', iteraciones = None, convergio = None\<rparr>"
  by (simp add: determinar_responsabilidad_def interpretar_codigo_def matriz_def)

text \<open>
  C3, as the table has it: the cells (4,5), (1,2) and (1,1) are as listed
  (shared 50/50 with code \<open>C\<close>, B liable 0/100 with code \<open>B\<close>, not applicable), while
  the cell (7,1) holds \<open>NA\<close>: the lookup for (7,1) is not applicable and carries no
  percentages.
\<close>

theorem matriz_celdas_ejemplo:
  "determinar_responsabilidad 4 5 =
     \<lparr>responsable = ''compartida'', porcentaje_a = Some 50, porcentaje_b = Some 50,
      codigo_matriz = Some ''C'', iteraciones = None, convergio = None\<rparr> \<and>
   determinar_responsabilidad 1 2 =
     \<lparr>responsable = ''vehiculo_b'', porcentaje_a = Some 0, porcentaje_b = Some 100,
      codigo_matriz = Some ''B'', iteraciones = None, convergio = None\<rparr> \<and>
   determinar_responsabilidad 7 1 =
     \<lparr>responsable = ''no_aplica'', porcentaje_a = None, porcentaje_b = None,
      codigo_matriz = Some ''NA'', iteraciones = None, convergio = None\<rparr> \<and>
   determinar_responsabilidad 1 1 =
     \<lparr>responsable = ''no_aplica'', porcentaje_a = None, porcentaje_b = None,
      codigo_matriz = Some ''NA'', iteraciones = None, convergio = None\<rparr>"
  by (simp add: determinar_responsabilidad_def interpretar_codigo_def matriz_def)

text \<open>
  C3 as written asks for all four cells at once, with (7,1) resolving to B liable 0/100.
  That conjunction is false on the table.
\<close>

theorem matriz_celda_7_1_counterexample:
  "\<not> (responsable (determinar_responsabilidad 4 5) = ''compartida'' \<and>
      porcentaje_a (determinar_responsabilidad 4 5) = Some 50 \<and>
      porcentaje_b (determinar_responsabilidad 4 5) = Some 50 \<and>
      responsable (determinar_responsabilidad 1 2) = ''vehiculo_b'' \<and>
      porcentaje_a (determinar_responsabilidad 1 2) = Some 0 \<and>
      porcentaje_b (determinar_responsabilidad 1 2) = Some 100 \<and>
      responsable (determinar_responsabilidad 7 1) = ''vehiculo_b'' \<and>
      porcentaje_a (determinar_responsabilidad 7 1) = Some 0 \<and>
      porcentaje_b (determinar_responsabilidad 7 1) = Some 100 \<and>
      responsable (determinar_responsabilidad 1 1) = ''no_aplica'')"
  by (simp add: determinar_responsabilidad_def interpretar_codigo_def matriz_def)

text \<open>
  C9: for circumstances in [1,15] x [1,15] the lookup is never \<^verbatim>\<open>"indeterminado"\<close> and
  never the unknown-code \<^verbatim>\<open>"error"\<close>; the cell code it reports is one of \<open>A\<close>, \<open>B\<close>,
  \<open>C\<close>, \<open>NA\<close>, which are exactly the codes occurring in the table.
\<close>

theorem matriz_nunca_indeterminado:
  assumes "1 \<le> a" and "a \<le> 15" and "1 \<le> b" and "b \<le> 15"
  shows "responsable (determinar_responsabilidad a b) \<noteq> ''indeterminado'' \<and>
         responsable (determinar_responsabilidad a b) \<noteq> ''error'' \<and>
         codigo_matriz (determinar_responsabilidad a b) \<in>
           {Some ''A'', Some ''B'', Some ''C'', Some ''NA''} \<and>
         set (concat matriz) = {''A'', ''B'', ''C'', ''NA''}"
proof -
  let ?c = "matriz ! nat (a - 1) ! nat (b - 1)"
  from assms have "nat (a - 1) < 15" and "nat (b - 1) < 15"
    by simp_all
  then have c: "?c = ''A'' \<or> ?c = ''B'' \<or> ?c = ''C'' \<or> ?c = ''NA''"
    by (rule celda_codigo)
  from assms have eq: "determinar_responsabilidad a b = interpretar_codigo ?c a b"
    by (simp add: determinar_responsabilidad_def)
  have tabla: "set (concat matriz) = {''A'', ''B'', ''C'', ''NA''}"
    by (simp add: matriz_def) blast
  from interpretar_codigo_tabla [OF c, of a b] c tabla show ?thesis
    unfolding eq by auto
qed

text \<open>The instance (13, 6) of C9: intoxication against following too close, code \<open>A\<close>.\<close>

theorem matriz_nunca_indeterminado_witness:
  "(1::int) \<le> 13 \<and> (13::int) \<le> 15 \<and> (1::int) \<le> 6 \<and> (6::int) \<le> 15 \<and>
   responsable (determinar_responsabilidad 13 6) = ''vehiculo_a'' \<and>
   responsable (determinar_responsabilidad 13 6) \<noteq> ''indeterminado'' \<and>
   responsable (determinar_responsabilidad 13 6) \<noteq> ''error'' \<and>
   codigo_matriz (determinar_responsabilidad 13 6) = Some ''A''"
  using matriz_nunca_indeterminado [of 13 6]
  by (simp add: determinar_responsabilidad_def interpretar_codigo_def matriz_def)

section \<open>Properties of the calculator\<close>

lemma py_round2_cero: "py_round2 0 = 0"
  by (simp add: py_round2_def py_round_def)

lemma calcular_deducible_cero: "max 0 (- calcular_deducible p 0) = 0"
  by (simp add: calcular_deducible_def Let_def)

text \<open>
  C4: the coverage factor is 1 for \<^verbatim>\<open>"premium"\<close>, 0.9 for \<^verbatim>\<open>"estandar"\<close> (the
  standard tier), 0.8 for \<^verbatim>\<open>"basica"\<close> (the basic tier) and 0.7 for every other tier
  value; it is a plain return value, and it is the factor the calculator reports in the
  two payment items. A policy that names no tier at all is read as \<^verbatim>\<open>"basica"\<close>.
\<close>

theorem factor_cobertura_por_tipo:
  "(tipo_cobertura p = Some ''premium'' \<longrightarrow> calcular_factor_cobertura p = 1) \<and>
   (tipo_cobertura p = Some ''estandar'' \<longrightarrow> calcular_factor_cobertura p = 9/10) \<and>
   (tipo_cobertura p = Some ''basica'' \<longrightarrow> calcular_factor_cobertura p = 8/10) \<and>
   (\<forall>t. tipo_cobertura p = Some t \<and> t \<noteq> ''premium'' \<and> t \<noteq> ''estandar'' \<and> t \<noteq> ''basica''
        \<longrightarrow> calcular_factor_cobertura p = 7/10) \<and>
   (tipo_cobertura p = None \<longrightarrow> calcular_factor_cobertura p = 8/10) \<and>
   (\<forall>r q dn res. calcular_indemnizacion r p q dn = Inr res \<longrightarrow>
        map factor_cobertura (indemnizaciones res) =
          [calcular_factor_cobertura p, calcular_factor_cobertura q])"
  by (auto simp: calcular_factor_cobertura_def calcular_indemnizacion_def Let_def)

text \<open>One policy per tier, and a tier outside the three named ones.\<close>

theorem factor_cobertura_por_tipo_witness:
  "calcular_factor_cobertura
     \<lparr>tipo_cobertura = Some ''premium'', deducible_porcentaje = None,
      deducible_minimo = None\<rparr> = 1 \<and>
   calcular_factor_cobertura
     \<lparr>tipo_cobertura = Some ''estandar'', deducible_porcentaje = None,
      deducible_minimo = None\<rparr> = 9/10 \<and>
   calcular_factor_cobertura
     \<lparr>tipo_cobertura = Some ''basica'', deducible_porcentaje = None,
      deducible_minimo = None\<rparr> = 8/10 \<and>
   calcular_factor_cobertura
     \<lparr>tipo_cobertura = Some ''todo_riesgo'', deducible_porcentaje = None,
      deducible_minimo = None\<rparr> = 7/10"
  using
    factor_cobertura_por_tipo [of "\<lparr>tipo_cobertura = Some ''premium'',
      deducible_porcentaje = None, deducible_minimo = None\<rparr>"]
    factor_cobertura_por_tipo [of "\<lparr>tipo_cobertura = Some ''estandar'',
      deducible_porcentaje = None, deducible_minimo = None\<rparr>"]
    factor_cobertura_por_tipo [of "\<lparr>tipo_cobertura = Some ''basica'',
      deducible_porcentaje = None, deducible_minimo = None\<rparr>"]
    factor_cobertura_por_tipo [of "\<lparr>tipo_cobertura = Some ''todo_riesgo'',
      deducible_porcentaje = None, deducible_minimo = None\<rparr>"]
  by simp

text \<open>
  C1, as the code has it: for an outcome whose \<^verbatim>\<open>responsable\<close> is \<^verbatim>\<open>"no_aplica"\<close> or
  \<^verbatim>\<open>"indeterminado"\<close> the engine does not call the calculator and reports no
  indemnification, without any failure. The calculator itself has no rejection: it never
  fails with \<open>NoLiabilityToCalculate\<close>, and for an outcome without percentages it returns a
  result whose two gross and two net amounts are 0 and whose percentages are 0 and 0.
\<close>

theorem calculadora_sin_rechazo:
  "(responsable r = ''no_aplica'' \<or> responsable r = ''indeterminado'' \<longrightarrow>
      procesar_siniestro_indemnizacion r poliza_a poliza_b dn = Inr None) \<and>
   calcular_indemnizacion r poliza_a poliza_b dn \<noteq> Inl NoLiabilityToCalculate \<and>
   (porcentaje_a r = None \<and> porcentaje_b r = None \<longrightarrow>
      (\<exists>res. calcular_indemnizacion r poliza_a poliza_b dn = Inr res \<and>
             map monto_bruto (indemnizaciones res) = [0, 0] \<and>
             map monto_neto (indemnizaciones res) = [0, 0] \<and>
             porcentaje_responsabilidad_a (resumen res) = 0 \<and>
             porcentaje_responsabilidad_b (resumen res) = 0))"
proof -
  have skip: "responsable r = ''no_aplica'' \<or> responsable r = ''indeterminado'' \<longrightarrow>
      procesar_siniestro_indemnizacion r poliza_a poliza_b dn = Inr None"
    by (auto simp: procesar_siniestro_indemnizacion_def)
  have noerr: "calcular_indemnizacion r poliza_a poliza_b dn \<noteq> Inl NoLiabilityToCalculate"
    by (simp add: calcular_indemnizacion_def Let_def)
  have zero: "porcentaje_a r = None \<and> porcentaje_b r = None \<longrightarrow>
      (\<exists>res. calcular_indemnizacion r poliza_a poliza_b dn = Inr res \<and>
             map monto_bruto (indemnizaciones res) = [0, 0] \<and>
             map monto_neto (indemnizaciones res) = [0, 0] \<and>
             porcentaje_responsabilidad_a (resumen res) = 0 \<and>
             porcentaje_responsabilidad_b (resumen res) = 0)"
    by (simp add: calcular_indemnizacion_def Let_def py_round2_cero calcular_deducible_cero)
  from skip noerr zero show ?thesis
    by blast
qed

text \<open>
  The instances of C1 at the matrix outcome for (1,1), which is \<^verbatim>\<open>"no_aplica"\<close>, and at
  the interpretation of the code \<open>NRD\<close>, which is \<^verbatim>\<open>"indeterminado"\<close>.
\<close>

theorem calculadora_sin_rechazo_witness:
  "responsable (determinar_responsabilidad 1 1) = ''no_aplica'' \<and>
   porcentaje_a (determinar_responsabilidad 1 1) = None \<and>
   porcentaje_b (determinar_responsabilidad 1 1) = None \<and>
   procesar_siniestro_indemnizacion (determinar_responsabilidad 1 1)
     \<lparr>tipo_cobertura = Some ''estandar'', deducible_porcentaje = Some 10,
      deducible_minimo = Some 50000\<rparr>
     \<lparr>tipo_cobertura = Some ''premium'', deducible_porcentaje = None,
      deducible_minimo = None\<rparr>
     \<lparr>monto_vehiculo_a = Some 800000, monto_vehiculo_b = Some 1000000\<rparr> = Inr None \<and>
   responsable (interpretar_codigo ''NRD'' 1 1) = ''indeterminado'' \<and>
   procesar_siniestro_indemnizacion (interpretar_codigo ''NRD'' 1 1)
     \<lparr>tipo_cobertura = Some ''estandar'', deducible_porcentaje = Some 10,
      deducible_minimo = Some 50000\<rparr>
     \<lparr>tipo_cobertura = Some ''premium'', deducible_porcentaje = None,
      deducible_minimo = None\<rparr>
     \<lparr>monto_vehiculo_a = Some 800000, monto_vehiculo_b = Some 1000000\<rparr> = Inr None"
  using
    calculadora_sin_rechazo [of "determinar_responsabilidad 1 1"
     "\<lparr>tipo_cobertura = Some ''estandar'', deducible_porcentaje = Some 10,
       deducible_minimo = Some 50000\<rparr>"
     "\<lparr>tipo_cobertura = Some ''premium'', deducible_porcentaje = None,
       deducible_minimo = None\<rparr>"
     "\<lparr>monto_vehiculo_a = Some 800000, monto_vehiculo_b = Some 1000000\<rparr>"]
    calculadora_sin_rechazo [of "interpretar_codigo ''NRD'' 1 1"
     "\<lparr>tipo_cobertura = Some ''estandar'', deducible_porcentaje = Some 10,
       deducible_minimo = Some 50000\<rparr>"
     "\<lparr>tipo_cobertura = Some ''premium'', deducible_porcentaje = None,
       deducible_minimo = None\<rparr>"
     "\<lparr>monto_vehiculo_a = Some 800000, monto_vehiculo_b = Some 1000000\<rparr>"]
  by (simp add: celda_1_1 interpretar_codigo_def)

text \<open>
  C1 as written fails when the calculator is called with the \<^verbatim>\<open>"no_aplica"\<close> outcome of
  the cell (1,1): the call returns a complete result (zero payments, the minimum
  deductible of policy A listed) instead of failing.
\<close>

theorem calculadora_no_aplica_counterexample:
  "calcular_indemnizacion (determinar_responsabilidad 1 1)
     \<lparr>tipo_cobertura = Some ''estandar'', deducible_porcentaje = Some 10,
      deducible_minimo = Some 50000\<rparr>
     \<lparr>tipo_cobertura = Some ''premium'', deducible_porcentaje = None,
      deducible_minimo = None\<rparr>
     \<lparr>monto_vehiculo_a = Some 800000, monto_vehiculo_b = Some 1000000\<rparr> =
   Inr \<lparr>indemnizaciones =
          [\<lparr>pagador = ''vehiculo_a'', receptor = ''vehiculo_b'', monto_bruto = 0, deducible = 0,
            monto_neto = 0, moneda = ''COP'', factor_cobertura = 9/10\<rparr>,
           \<lparr>pagador = ''vehiculo_b'', receptor = ''vehiculo_a'', monto_bruto = 0,
            deducible = 50000, monto_neto = 0, moneda = ''COP'', factor_cobertura = 1\<rparr>],
        resumen = \<lparr>total_danos_a = 800000, total_danos_b = 1000000,
                   porcentaje_responsabilidad_a = 0, porcentaje_responsabilidad_b = 0\<rparr>\<rparr> \<and>
   calcular_indemnizacion (determinar_responsabilidad 1 1)
     \<lparr>tipo_cobertura = Some ''estandar'', deducible_porcentaje = Some 10,
      deducible_minimo = Some 50000\<rparr>
     \<lparr>tipo_cobertura = Some ''premium'', deducible_porcentaje = None,
      deducible_minimo = None\<rparr>
     \<lparr>monto_vehiculo_a = Some 800000, monto_vehiculo_b = Some 1000000\<rparr> \<noteq>
   Inl NoLiabilityToCalculate"
proof -
  have f1: "calcular_factor_cobertura \<lparr>tipo_cobertura = Some ''estandar'',
      deducible_porcentaje = Some 10, deducible_minimo = Some 50000\<rparr> = 9/10"
    by (simp add: calcular_factor_cobertura_def)
  have f2: "calcular_factor_cobertura \<lparr>tipo_cobertura = Some ''premium'',
      deducible_porcentaje = None, deducible_minimo = None\<rparr> = 1"
    by (simp add: calcular_factor_cobertura_def)
  have d1: "calcular_deducible \<lparr>tipo_cobertura = Some ''estandar'',
      deducible_porcentaje = Some 10, deducible_minimo = Some 50000\<rparr> 0 = 50000"
    by (simp add: calcular_deducible_def)
  have d2: "calcular_deducible \<lparr>tipo_cobertura = Some ''premium'',
      deducible_porcentaje = None, deducible_minimo = None\<rparr> 0 = 0"
    by (simp add: calcular_deducible_def)
  have r: "py_round2 0 = 0" "py_round2 50000 = 50000" "py_round2 800000 = 800000"
      "py_round2 1000000 = 1000000"
    by (simp_all add: py_round2_def py_round_def)
  show ?thesis
    by (simp add: calcular_indemnizacion_def celda_1_1 f1 f2 d1 d2 r)
qed

section \<open>Properties of the negotiation\<close>

lemma ajustar_distribucion_suma:
  "dist_a (ajustar_distribucion d pe pd) + dist_b (ajustar_distribucion d pe pd) = 100"
  by (simp add: ajustar_distribucion_def Let_def)

lemma distribucion_inicial_suma:
  "dist_a (distribucion_inicial ca cb) + dist_b (distribucion_inicial ca cb) = 100"
  by (simp add: distribucion_inicial_def Let_def)

lemma converge_iff_sin_cambio: "converge anterior actual \<longleftrightarrow> dist_a anterior = dist_a actual"
proof -
  have "of_int \<bar>dist_a anterior - dist_a actual\<bar> \<le> (5 / 100 :: real) \<longleftrightarrow>
        \<bar>dist_a anterior - dist_a actual\<bar> \<le> \<lfloor>5 / 100 :: real\<rfloor>"
    by (rule le_floor_iff [symmetric])
  also have "\<lfloor>5 / 100 :: real\<rfloor> = 0"
    by simp
  finally show ?thesis
    by (simp add: converge_def umbral_convergencia_def)
qed

lemma bucle_iteracion_cota:
  "iteracion \<le> max_iteraciones \<Longrightarrow>
   fst (bucle_negociacion pe pd iteracion d) \<le> max_iteraciones"
proof (induction pe pd iteracion d rule: bucle_negociacion.induct)
  case (1 pe pd iteracion d)
  show ?case
  proof (cases "iteracion < max_iteraciones")
    case True
    show ?thesis
    proof (cases "converge d (ajustar_distribucion d pe pd)")
      case c: True
      with True show ?thesis
        by (simp add: bucle_negociacion.simps [of pe pd iteracion d])
    next
      case c: False
      from True have "iteracion + 1 \<le> max_iteraciones" by simp
      with "1.IH" True c
      have "fst (bucle_negociacion pe pd (iteracion + 1) (ajustar_distribucion d pe pd))
              \<le> max_iteraciones"
        by simp
      with True c show ?thesis
        by (simp add: bucle_negociacion.simps [of pe pd iteracion d])
    qed
  next
    case False
    with "1.prems" show ?thesis
      by (subst bucle_negociacion.simps) simp
  qed
qed

lemma bucle_suma:
  "dist_a d + dist_b d = 100 \<Longrightarrow>
   dist_a (snd (bucle_negociacion pe pd iteracion d)) +
   dist_b (snd (bucle_negociacion pe pd iteracion d)) = 100"
proof (induction pe pd iteracion d rule: bucle_negociacion.induct)
  case (1 pe pd iteracion d)
  show ?case
  proof (cases "iteracion < max_iteraciones")
    case True
    show ?thesis
    proof (cases "converge d (ajustar_distribucion d pe pd)")
      case c: True
      with True show ?thesis
        by (simp add: bucle_negociacion.simps [of pe pd iteracion d] ajustar_distribucion_suma)
    next
      case c: False
      with "1.IH" True ajustar_distribucion_suma [of d pe pd] show ?thesis
        by (simp add: bucle_negociacion.simps [of pe pd iteracion d])
    qed
  next
    case False
    with "1.prems" show ?thesis
      by (simp add: bucle_negociacion.simps [of pe pd iteracion d])
  qed
qed

lemma negociar_forma:
  "negociar ca cb docs evs =
     Inr \<lparr>responsable =
            (if dist_a (snd (bucle_negociacion (calcular_peso_evidencias evs)
                  (calcular_peso_documentos docs) 0 (distribucion_inicial ca cb))) \<ge> 90
             then ''vehiculo_a''
             else if dist_b (snd (bucle_negociacion (calcular_peso_evidencias evs)
                  (calcular_peso_documentos docs) 0 (distribucion_inicial ca cb))) \<ge> 90
             then ''vehiculo_b'' else ''compartida''),
          porcentaje_a = Some (dist_a (snd (bucle_negociacion (calcular_peso_evidencias evs)
                  (calcular_peso_documentos docs) 0 (distribucion_inicial ca cb)))),
          porcentaje_b = Some (dist_b (snd (bucle_negociacion (calcular_peso_evidencias evs)
                  (calcular_peso_documentos docs) 0 (distribucion_inicial ca cb)))),
          codigo_matriz = None,
          iteraciones = Some (fst (bucle_negociacion (calcular_peso_evidencias evs)
                  (calcular_peso_documentos docs) 0 (distribucion_inicial ca cb))),
          convergio = Some (fst (bucle_negociacion (calcular_peso_evidencias evs)
                  (calcular_peso_documentos docs) 0 (distribucion_inicial ca cb))
                < max_iteraciones)\<rparr>"
  by (simp add: negociar_def Let_def split: prod.split)

subsection \<open>Concrete runs\<close>

text \<open>
  The runs below are evaluated step by step. In each of them every value that is rounded
  lies well away from a tie, so exact and binary floating-point arithmetic round it to the
  same integer.
\<close>

lemma pesos_sin_items:
  "calcular_peso_evidencias [] = \<lparr>peso_a = 0, peso_b = 0, total = 0\<rparr>"
  "calcular_peso_documentos [] = \<lparr>peso_a = 0, peso_b = 0, total = 0\<rparr>"
  by (simp_all add: calcular_peso_evidencias_def calcular_peso_documentos_def)

lemma peso_una_evidencia:
  "calcular_peso_evidencias
     [\<lparr>procesada = Some True,
       analisis = Some \<lparr>responsabilidad_sugerida = Some ''vehiculo_a'', confianza = Some c\<rparr>\<rparr>] =
   \<lparr>peso_a = 0, peso_b = c, total = 1\<rparr>"
  "calcular_peso_evidencias
     [\<lparr>procesada = Some True,
       analisis = Some \<lparr>responsabilidad_sugerida = Some ''vehiculo_b'', confianza = Some c\<rparr>\<rparr>] =
   \<lparr>peso_a = c, peso_b = 0, total = 1\<rparr>"
  by (simp_all add: calcular_peso_evidencias_def paso_evidencia_def confianza_de_def)

lemma semillas:
  "distribucion_inicial 1 1 = \<lparr>dist_a = 50, dist_b = 50\<rparr>"
  "distribucion_inicial 15 13 = \<lparr>dist_a = 83, dist_b = 17\<rparr>"
  "distribucion_inicial 13 15 = \<lparr>dist_a = 17, dist_b = 83\<rparr>"
  "distribucion_inicial 4 5 = \<lparr>dist_a = 49, dist_b = 51\<rparr>"
  by (simp_all add: distribucion_inicial_def pesos_gravedad_def py_round_def)

lemmas bucle_eval = bucle_negociacion.simps max_iteraciones_def converge_iff_sin_cambio
  ajustar_distribucion_def py_round_def

lemma corrida_b_010:
  "negociar 1 1 []
     [\<lparr>procesada = Some True,
       analisis = Some \<lparr>responsabilidad_sugerida = Some ''vehiculo_b'',
                        confianza = Some (1/10)\<rparr>\<rparr>] =
   Inr \<lparr>responsable = ''compartida'', porcentaje_a = Some 62, porcentaje_b = Some 38,
        codigo_matriz = None, iteraciones = Some 5, convergio = Some False\<rparr>"
proof -
  have "bucle_negociacion \<lparr>peso_a = 1/10, peso_b = 0, total = 1\<rparr>
          \<lparr>peso_a = 0, peso_b = 0, total = 0\<rparr> 0 \<lparr>dist_a = 50, dist_b = 50\<rparr> =
        (5, \<lparr>dist_a = 62, dist_b = 38\<rparr>)"
    by (simp add: bucle_eval)
  then show ?thesis
    by (simp add: negociar_def pesos_sin_items peso_una_evidencia semillas max_iteraciones_def)
qed

lemma corrida_a_negativa:
  "negociar 1 1 []
     [\<lparr>procesada = Some True,
       analisis = Some \<lparr>responsabilidad_sugerida = Some ''vehiculo_a'',
                        confianza = Some (- 1/2)\<rparr>\<rparr>] =
   Inr \<lparr>responsable = ''vehiculo_a'', porcentaje_a = Some 294, porcentaje_b = Some (- 194),
        codigo_matriz = None, iteraciones = Some 5, convergio = Some False\<rparr>"
proof -
  have "bucle_negociacion \<lparr>peso_a = 0, peso_b = - 1/2, total = 1\<rparr>
          \<lparr>peso_a = 0, peso_b = 0, total = 0\<rparr> 0 \<lparr>dist_a = 50, dist_b = 50\<rparr> =
        (5, \<lparr>dist_a = 294, dist_b = - 194\<rparr>)"
    by (simp add: bucle_eval)
  then show ?thesis
    by (simp add: negociar_def pesos_sin_items peso_una_evidencia semillas max_iteraciones_def)
qed

lemma corrida_b_030:
  "negociar 1 1 []
     [\<lparr>procesada = Some True,
       analisis = Some \<lparr>responsabilidad_sugerida = Some ''vehiculo_b'',
                        confianza = Some (3/10)\<rparr>\<rparr>] =
   Inr \<lparr>responsable = ''compartida'', porcentaje_a = Some 78, porcentaje_b = Some 22,
        codigo_matriz = None, iteraciones = Some 5, convergio = Some False\<rparr>"
proof -
  have "bucle_negociacion \<lparr>peso_a = 3/10, peso_b = 0, total = 1\<rparr>
          \<lparr>peso_a = 0, peso_b = 0, total = 0\<rparr> 0 \<lparr>dist_a = 50, dist_b = 50\<rparr> =
        (5, \<lparr>dist_a = 78, dist_b = 22\<rparr>)"
    by (simp add: bucle_eval)
  then show ?thesis
    by (simp add: negociar_def pesos_sin_items peso_una_evidencia semillas max_iteraciones_def)
qed

lemma corrida_dominante_a:
  "negociar 15 13 []
     [\<lparr>procesada = Some True,
       analisis = Some \<lparr>responsabilidad_sugerida = Some ''vehiculo_b'',
                        confianza = Some (9/10)\<rparr>\<rparr>] =
   Inr \<lparr>responsable = ''vehiculo_a'', porcentaje_a = Some 98, porcentaje_b = Some 2,
        codigo_matriz = None, iteraciones = Some 5, convergio = Some False\<rparr>"
proof -
  have "bucle_negociacion \<lparr>peso_a = 9/10, peso_b = 0, total = 1\<rparr>
          \<lparr>peso_a = 0, peso_b = 0, total = 0\<rparr> 0 \<lparr>dist_a = 83, dist_b = 17\<rparr> =
        (5, \<lparr>dist_a = 98, dist_b = 2\<rparr>)"
    by (simp add: bucle_eval)
  then show ?thesis
    by (simp add: negociar_def pesos_sin_items peso_una_evidencia semillas max_iteraciones_def)
qed

lemma corrida_dominante_b:
  "negociar 13 15 []
     [\<lparr>procesada = Some True,
       analisis = Some \<lparr>responsabilidad_sugerida = Some ''vehiculo_a'',
                        confianza = Some (9/10)\<rparr>\<rparr>] =
   Inr \<lparr>responsable = ''vehiculo_b'', porcentaje_a = Some 2, porcentaje_b = Some 98,
        codigo_matriz = None, iteraciones = Some 5, convergio = Some False\<rparr>"
proof -
  have "bucle_negociacion \<lparr>peso_a = 0, peso_b = 9/10, total = 1\<rparr>
          \<lparr>peso_a = 0, peso_b = 0, total = 0\<rparr> 0 \<lparr>dist_a = 17, dist_b = 83\<rparr> =
        (5, \<lparr>dist_a = 2, dist_b = 98\<rparr>)"
    by (simp add: bucle_eval)
  then show ?thesis
    by (simp add: negociar_def pesos_sin_items peso_una_evidencia semillas max_iteraciones_def)
qed

lemma corrida_sin_items:
  "negociar 4 5 [] [] =
   Inr \<lparr>responsable = ''compartida'', porcentaje_a = Some 49, porcentaje_b = Some 51,
        codigo_matriz = None, iteraciones = Some 0, convergio = Some True\<rparr>"
proof -
  have "bucle_negociacion \<lparr>peso_a = 0, peso_b = 0, total = 0\<rparr>
          \<lparr>peso_a = 0, peso_b = 0, total = 0\<rparr> 0 \<lparr>dist_a = 49, dist_b = 51\<rparr> =
        (0, \<lparr>dist_a = 49, dist_b = 51\<rparr>)"
    by (simp add: bucle_eval)
  then show ?thesis
    by (simp add: negociar_def pesos_sin_items semillas max_iteraciones_def)
qed

subsection \<open>Percentage invariant, iteration bound, classification\<close>

text \<open>
  C6: the seed distribution sums to exactly 100, every application of
  \<^verbatim>\<open>_ajustar_distribucion\<close> (one per iteration, from whatever distribution and weights)
  returns a pair that sums to exactly 100 after the residual has been added to the share
  of A, hence so does the state the loop ends in from any iteration count, and so do the
  percentages of the outcome that \<^verbatim>\<open>negociar\<close> returns.
\<close>

theorem negociacion_suma_100:
  "dist_a (distribucion_inicial ca cb) + dist_b (distribucion_inicial ca cb) = 100 \<and>
   dist_a (ajustar_distribucion d pe pd) + dist_b (ajustar_distribucion d pe pd) = 100 \<and>
   dist_a (snd (bucle_negociacion pe pd i (distribucion_inicial ca cb))) +
   dist_b (snd (bucle_negociacion pe pd i (distribucion_inicial ca cb))) = 100 \<and>
   (\<exists>r p q. negociar ca cb docs evs = Inr r \<and> porcentaje_a r = Some p \<and>
        porcentaje_b r = Some q \<and> p + q = 100)"
proof -
  have fin: "\<exists>r p q. negociar ca cb docs evs = Inr r \<and> porcentaje_a r = Some p \<and>
        porcentaje_b r = Some q \<and> p + q = 100"
    by (simp add: negociar_forma bucle_suma distribucion_inicial_suma)
  with distribucion_inicial_suma [of ca cb] ajustar_distribucion_suma [of d pe pd]
    bucle_suma [OF distribucion_inicial_suma, of pe pd i ca cb]
  show ?thesis
    by blast
qed

text \<open>
  C7: every call returns, its \<^verbatim>\<open>iteraciones\<close> is at most 5, and when \<^verbatim>\<open>convergio\<close> is
  false \<^verbatim>\<open>iteraciones\<close> is exactly 5.
\<close>

theorem negociar_iteraciones_acotadas:
  "\<exists>r k c. negociar ca cb docs evs = Inr r \<and> iteraciones r = Some k \<and>
       convergio r = Some c \<and> k \<le> 5 \<and> (\<not> c \<longrightarrow> k = 5)"
proof -
  let ?k = "fst (bucle_negociacion (calcular_peso_evidencias evs)
                  (calcular_peso_documentos docs) 0 (distribucion_inicial ca cb))"
  have "?k \<le> max_iteraciones"
    by (rule bucle_iteracion_cota) simp
  then have "?k \<le> 5 \<and> (\<not> ?k < max_iteraciones \<longrightarrow> ?k = 5)"
    by (simp add: max_iteraciones_def)
  then show ?thesis
    by (simp add: negociar_forma)
qed

text \<open>A run that exhausts the budget: \<^verbatim>\<open>convergio\<close> false, \<^verbatim>\<open>iteraciones\<close> 5.\<close>

theorem negociar_iteraciones_acotadas_witness:
  "negociar 1 1 []
     [\<lparr>procesada = Some True,
       analisis = Some \<lparr>responsabilidad_sugerida = Some ''vehiculo_b'',
                        confianza = Some (3/10)\<rparr>\<rparr>] =
   Inr \<lparr>responsable = ''compartida'', porcentaje_a = Some 78, porcentaje_b = Some 22,
        codigo_matriz = None, iteraciones = Some 5, convergio = Some False\<rparr>"
  using negociar_iteraciones_acotadas [of 1 1 "[]"
     "[\<lparr>procesada = Some True,
       analisis = Some \<lparr>responsabilidad_sugerida = Some ''vehiculo_b'',
                        confianza = Some (3/10)\<rparr>\<rparr>]"]
  by (simp add: corrida_b_030)

text \<open>
  C8: the outcome carries the percentages of the distribution the loop ended in, unchanged;
  it is \<^verbatim>\<open>"vehiculo_a"\<close> when the share of A is at least 90, \<^verbatim>\<open>"vehiculo_b"\<close> when the
  share of B is at least 90, and \<^verbatim>\<open>"compartida"\<close> otherwise.
\<close>

theorem negociar_clasificacion_final:
  "\<exists>r p q. negociar ca cb docs evs = Inr r \<and>
     porcentaje_a r = Some p \<and> porcentaje_b r = Some q \<and>
     p = dist_a (snd (bucle_negociacion (calcular_peso_evidencias evs)
            (calcular_peso_documentos docs) 0 (distribucion_inicial ca cb))) \<and>
     q = dist_b (snd (bucle_negociacion (calcular_peso_evidencias evs)
            (calcular_peso_documentos docs) 0 (distribucion_inicial ca cb))) \<and>
     (p \<ge> 90 \<longrightarrow> responsable r = ''vehiculo_a'') \<and>
     (q \<ge> 90 \<longrightarrow> responsable r = ''vehiculo_b'') \<and>
     (p < 90 \<and> q < 90 \<longrightarrow> responsable r = ''compartida'')"
proof -
  let ?d = "snd (bucle_negociacion (calcular_peso_evidencias evs)
            (calcular_peso_documentos docs) 0 (distribucion_inicial ca cb))"
  have "dist_a ?d + dist_b ?d = 100"
    by (rule bucle_suma) (rule distribucion_inicial_suma)
  then have "dist_b ?d \<ge> 90 \<longrightarrow> \<not> dist_a ?d \<ge> 90"
    by arith
  then show ?thesis
    by (simp add: negociar_forma)
qed

text \<open>One run per kind: A dominant with 98/2, B dominant with 2/98, shared with 49/51.\<close>

theorem negociar_clasificacion_final_witness:
  "negociar 15 13 []
     [\<lparr>procesada = Some True,
       analisis = Some \<lparr>responsabilidad_sugerida = Some ''vehiculo_b'',
                        confianza = Some (9/10)\<rparr>\<rparr>] =
   Inr \<lparr>responsable = ''vehiculo_a'', porcentaje_a = Some 98, porcentaje_b = Some 2,
        codigo_matriz = None, iteraciones = Some 5, convergio = Some False\<rparr> \<and>
   negociar 13 15 []
     [\<lparr>procesada = Some True,
       analisis = Some \<lparr>responsabilidad_sugerida = Some ''vehiculo_a'',
                        confianza = Some (9/10)\<rparr>\<rparr>] =
   Inr \<lparr>responsable = ''vehiculo_b'', porcentaje_a = Some 2, porcentaje_b = Some 98,
        codigo_matriz = None, iteraciones = Some 5, convergio = Some False\<rparr> \<and>
   negociar 4 5 [] [] =
   Inr \<lparr>responsable = ''compartida'', porcentaje_a = Some 49, porcentaje_b = Some 51,
        codigo_matriz = None, iteraciones = Some 0, convergio = Some True\<rparr>"
  using
    negociar_clasificacion_final [of 15 13 "[]"
     "[\<lparr>procesada = Some True,
       analisis = Some \<lparr>responsabilidad_sugerida = Some ''vehiculo_b'',
                        confianza = Some (9/10)\<rparr>\<rparr>]"]
    negociar_clasificacion_final [of 13 15 "[]"
     "[\<lparr>procesada = Some True,
       analisis = Some \<lparr>responsabilidad_sugerida = Some ''vehiculo_a'',
                        confianza = Some (9/10)\<rparr>\<rparr>]"]
    negociar_clasificacion_final [of 4 5 "[]" "[]"]
  by (simp add: corrida_dominante_a corrida_dominante_b corrida_sin_items)

subsection \<open>The convergence threshold\<close>

text \<open>
  C2 at a failing input. With the seed 50/50 of the circumstances (1,1) and one processed
  evidence item that suggests vehicle B with confidence 0.1, the first iteration moves the
  share of A from 50 to 53. The difference 3 is within 5 percentage points, yet
  \<^verbatim>\<open>_converge\<close> compares it with 0.05 and answers no; the loop then runs all five
  iterations and \<^verbatim>\<open>negociar\<close> reports 62/38 as not converged.
\<close>

theorem converge_umbral_failing_input:
  "\<bar>(50::int) - 53\<bar> \<le> 5 \<and>
   ajustar_distribucion \<lparr>dist_a = 50, dist_b = 50\<rparr> \<lparr>peso_a = 1/10, peso_b = 0, total = 1\<rparr>
     \<lparr>peso_a = 0, peso_b = 0, total = 0\<rparr> = \<lparr>dist_a = 53, dist_b = 47\<rparr> \<and>
   \<not> converge \<lparr>dist_a = 50, dist_b = 50\<rparr> \<lparr>dist_a = 53, dist_b = 47\<rparr> \<and>
   negociar 1 1 []
     [\<lparr>procesada = Some True,
       analisis = Some \<lparr>responsabilidad_sugerida = Some ''vehiculo_b'',
                        confianza = Some (1/10)\<rparr>\<rparr>] =
   Inr \<lparr>responsable = ''compartida'', porcentaje_a = Some 62, porcentaje_b = Some 38,
        codigo_matriz = None, iteraciones = Some 5, convergio = Some False\<rparr>"
proof -
  have "ajustar_distribucion \<lparr>dist_a = 50, dist_b = 50\<rparr> \<lparr>peso_a = 1/10, peso_b = 0, total = 1\<rparr>
     \<lparr>peso_a = 0, peso_b = 0, total = 0\<rparr> = \<lparr>dist_a = 53, dist_b = 47\<rparr>"
    by (simp add: ajustar_distribucion_def py_round_def)
  moreover have "\<not> converge \<lparr>dist_a = 50, dist_b = 50\<rparr> \<lparr>dist_a = 53, dist_b = 47\<rparr>"
    by (simp add: converge_def umbral_convergencia_def)
  ultimately show ?thesis
    by (simp add: corrida_b_010)
qed

subsection \<open>Weights are not validated\<close>

text \<open>
  C5 as written fails for one processed evidence item with the negative confidence -0.5:
  \<^verbatim>\<open>negociar\<close> returns an outcome (with the shares 294 and -194) instead of failing with
  \<open>InvalidWeight\<close>.
\<close>

theorem negociar_peso_negativo_counterexample:
  "negociar 1 1 []
     [\<lparr>procesada = Some True,
       analisis = Some \<lparr>responsabilidad_sugerida = Some ''vehiculo_a'',
                        confianza = Some (- 1/2)\<rparr>\<rparr>] =
   Inr \<lparr>responsable = ''vehiculo_a'', porcentaje_a = Some 294, porcentaje_b = Some (- 194),
        codigo_matriz = None, iteraciones = Some 5, convergio = Some False\<rparr> \<and>
   negociar 1 1 []
     [\<lparr>procesada = Some True,
       analisis = Some \<lparr>responsabilidad_sugerida = Some ''vehiculo_a'',
                        confianza = Some (- 1/2)\<rparr>\<rparr>] \<noteq> Inl InvalidWeight"
  using corrida_a_negativa by simp

text \<open>
  C5, as the code has it: the negotiation has no validation of its weight inputs and
  \<open>InvalidWeight\<close> is not among its failures. The confidence \<open>c\<close> of a processed
  evidence item enters the weight unchanged whatever its sign; a document whose confidence
  is below 0.3, negative ones included, is skipped; and the blend uses a negative weight as
  it is: from 50/50, the weight -0.5 for B gives 71/29.
\<close>

theorem negociar_sin_validacion:
  "negociar ca cb docs evs \<noteq> Inl InvalidWeight \<and>
   calcular_peso_evidencias
     [\<lparr>procesada = Some True,
       analisis = Some \<lparr>responsabilidad_sugerida = Some ''vehiculo_a'', confianza = Some c\<rparr>\<rparr>] =
     \<lparr>peso_a = 0, peso_b = c, total = 1\<rparr> \<and>
   (c < 3/10 \<longrightarrow>
      calcular_peso_documentos
        [\<lparr>clasificacion = Some \<lparr>responsabilidad_sugerida = Some ''vehiculo_a'',
                                 confianza = Some c\<rparr>\<rparr>] =
        \<lparr>peso_a = 0, peso_b = 0, total = 0\<rparr>) \<and>
   ajustar_distribucion \<lparr>dist_a = 50, dist_b = 50\<rparr> \<lparr>peso_a = 0, peso_b = - (1/2), total = 1\<rparr>
     \<lparr>peso_a = 0, peso_b = 0, total = 0\<rparr> = \<lparr>dist_a = 71, dist_b = 29\<rparr>"
proof -
  have sin_fallo: "negociar ca cb docs evs \<noteq> Inl InvalidWeight"
    by (simp add: negociar_forma)
  have evidencia_c: "calcular_peso_evidencias
     [\<lparr>procesada = Some True,
       analisis = Some \<lparr>responsabilidad_sugerida = Some ''vehiculo_a'', confianza = Some c\<rparr>\<rparr>] =
     \<lparr>peso_a = 0, peso_b = c, total = 1\<rparr>"
    by (rule peso_una_evidencia)
  have documento_c: "c < 3/10 \<longrightarrow>
      calcular_peso_documentos
        [\<lparr>clasificacion = Some \<lparr>responsabilidad_sugerida = Some ''vehiculo_a'',
                                 confianza = Some c\<rparr>\<rparr>] =
        \<lparr>peso_a = 0, peso_b = 0, total = 0\<rparr>"
    by (simp add: calcular_peso_documentos_def paso_documento_def confianza_de_def)
  have mezcla: "ajustar_distribucion \<lparr>dist_a = 50, dist_b = 50\<rparr>
     \<lparr>peso_a = 0, peso_b = - (1/2), total = 1\<rparr>
     \<lparr>peso_a = 0, peso_b = 0, total = 0\<rparr> = \<lparr>dist_a = 71, dist_b = 29\<rparr>"
    by (simp add: ajustar_distribucion_def py_round_def)
  from sin_fallo evidencia_c documento_c mezcla show ?thesis
    by blast
qed

text \<open>The instance of C5 at the confidence -0.5.\<close>

theorem negociar_sin_validacion_witness:
  "calcular_peso_evidencias
     [\<lparr>procesada = Some True,
       analisis = Some \<lparr>responsabilidad_sugerida = Some ''vehiculo_a'',
                        confianza = Some (- 1/2)\<rparr>\<rparr>] =
     \<lparr>peso_a = 0, peso_b = - 1/2, total = 1\<rparr> \<and>
   (- 1/2 :: real) < 3/10 \<and>
   calcular_peso_documentos
     [\<lparr>clasificacion = Some \<lparr>responsabilidad_sugerida = Some ''vehiculo_a'',
                              confianza = Some (- 1/2)\<rparr>\<rparr>] =
     \<lparr>peso_a = 0, peso_b = 0, total = 0\<rparr>"
  using negociar_sin_validacion [of 1 1 "[]" "[]" "- 1/2"]
  by simp

subsection \<open>Weight aggregation\<close>

lemma paso_evidencia_contada:
  assumes "procesada e = Some True"
  shows "paso_evidencia (pa, pb, n) e =
    (pa + fst (aporte_cruzado (case analisis e of None \<Rightarrow> sin_sugerencia | Some a \<Rightarrow> a)),
     pb + snd (aporte_cruzado (case analisis e of None \<Rightarrow> sin_sugerencia | Some a \<Rightarrow> a)),
     n + 1)"
  using assms
  by (auto simp: paso_evidencia_def aporte_cruzado_def Let_def split: option.split)

lemma paso_evidencia_omitida:
  assumes "procesada e \<noteq> Some True"
  shows "paso_evidencia (pa, pb, n) e = (pa, pb, n)"
  using assms by (cases "procesada e") (auto simp: paso_evidencia_def)

lemma bucle_evidencias_suma:
  "foldl paso_evidencia (pa, pb, n) evs =
     (pa + sum_list (map (\<lambda>s. fst (aporte_cruzado s)) (evidencias_contadas evs)),
      pb + sum_list (map (\<lambda>s. snd (aporte_cruzado s)) (evidencias_contadas evs)),
      n + length (evidencias_contadas evs))"
proof (induction evs arbitrary: pa pb n)
  case Nil
  show ?case by (simp add: evidencias_contadas_def)
next
  case (Cons e evs)
  show ?case
  proof (cases "procesada e = Some True")
    case True
    then show ?thesis
      by (simp add: paso_evidencia_contada Cons.IH evidencias_contadas_def)
  next
    case False
    then show ?thesis
      by (simp add: paso_evidencia_omitida Cons.IH evidencias_contadas_def)
  qed
qed

lemma paso_documento_contado:
  assumes "3/10 \<le> confianza_de (case clasificacion d of None \<Rightarrow> sin_sugerencia | Some c \<Rightarrow> c)"
  shows "paso_documento (pa, pb, n) d =
    (pa + fst (aporte_cruzado (case clasificacion d of None \<Rightarrow> sin_sugerencia | Some c \<Rightarrow> c)),
     pb + snd (aporte_cruzado (case clasificacion d of None \<Rightarrow> sin_sugerencia | Some c \<Rightarrow> c)),
     n + 1)"
  using assms
  by (auto simp: paso_documento_def aporte_cruzado_def Let_def split: option.split)

lemma paso_documento_omitido:
  assumes "\<not> 3/10 \<le> confianza_de (case clasificacion d of None \<Rightarrow> sin_sugerencia | Some c \<Rightarrow> c)"
  shows "paso_documento (pa, pb, n) d = (pa, pb, n)"
  using assms by (simp add: paso_documento_def Let_def)

lemma bucle_documentos_suma:
  "foldl paso_documento (pa, pb, n) docs =
     (pa + sum_list (map (\<lambda>s. fst (aporte_cruzado s)) (documentos_contados docs)),
      pb + sum_list (map (\<lambda>s. snd (aporte_cruzado s)) (documentos_contados docs)),
      n + length (documentos_contados docs))"
proof (induction docs arbitrary: pa pb n)
  case Nil
  show ?case by (simp add: documentos_contados_def)
next
  case (Cons d docs)
  show ?case
  proof (cases "3/10 \<le> confianza_de (case clasificacion d of None \<Rightarrow> sin_sugerencia | Some c \<Rightarrow> c)")
    case True
    then show ?thesis
      by (simp add: paso_documento_contado Cons.IH documentos_contados_def)
  next
    case False
    then show ?thesis
      by (simp add: paso_documento_omitido Cons.IH documentos_contados_def)
  qed
qed

text \<open>
  C10 as written fails for a document that suggests vehicle A with confidence 0.2: it is
  skipped, so its confidence is not added to the weight of B.
\<close>

theorem documento_omitido_counterexample:
  "paso_documento (0, 0, 0)
     \<lparr>clasificacion = Some \<lparr>responsabilidad_sugerida = Some ''vehiculo_a'',
                             confianza = Some (1/5)\<rparr>\<rparr> = (0, 0, 0) \<and>
   peso_b (calcular_peso_documentos
     [\<lparr>clasificacion = Some \<lparr>responsabilidad_sugerida = Some ''vehiculo_a'',
                              confianza = Some (1/5)\<rparr>\<rparr>]) \<noteq> 1/5"
  by (simp add: calcular_peso_documentos_def paso_documento_def confianza_de_def)

text \<open>
  C10, as the code has it: among the counted items (evidence marked as processed,
  documents with a confidence of at least 0.3, a missing confidence read as 0.5) an item
  that suggests vehicle A adds its confidence to the sum for B, an item that suggests
  vehicle B adds it to the sum for A, an item that suggests shared responsibility adds
  half to each, any other item adds nothing; both weights are these sums divided by the
  number of counted items, and items that are not counted contribute nothing.
\<close>

theorem pesos_acumulados_cruzados:
  "calcular_peso_evidencias evs = pesos_cruzados (evidencias_contadas evs) \<and>
   calcular_peso_documentos docs = pesos_cruzados (documentos_contados docs)"
  by (simp add: calcular_peso_evidencias_def calcular_peso_documentos_def
      bucle_evidencias_suma bucle_documentos_suma pesos_cruzados_def)

text \<open>A list of four evidence items, one of them not processed, and two documents, one of them below 0.3.\<close>

theorem pesos_acumulados_cruzados_witness:
  "calcular_peso_evidencias
     [\<lparr>procesada = Some True,
       analisis = Some \<lparr>responsabilidad_sugerida = Some ''vehiculo_a'',
                        confianza = Some (4/5)\<rparr>\<rparr>,
      \<lparr>procesada = Some True,
       analisis = Some \<lparr>responsabilidad_sugerida = Some ''vehiculo_b'',
                        confianza = Some (2/5)\<rparr>\<rparr>,
      \<lparr>procesada = Some False,
       analisis = Some \<lparr>responsabilidad_sugerida = Some ''vehiculo_a'',
                        confianza = Some (9/10)\<rparr>\<rparr>,
      \<lparr>procesada = Some True,
       analisis = Some \<lparr>responsabilidad_sugerida = Some ''compartida'',
                        confianza = None\<rparr>\<rparr>] =
     \<lparr>peso_a = (2/5 + 1/4) / 3, peso_b = (4/5 + 1/4) / 3, total = 3\<rparr> \<and>
   calcular_peso_documentos
     [\<lparr>clasificacion = Some \<lparr>responsabilidad_sugerida = Some ''vehiculo_a'',
                              confianza = Some (1/5)\<rparr>\<rparr>,
      \<lparr>clasificacion = Some \<lparr>responsabilidad_sugerida = Some ''vehiculo_a'',
                              confianza = Some (3/5)\<rparr>\<rparr>] =
     \<lparr>peso_a = 0, peso_b = 3/5, total = 1\<rparr>"
  using pesos_acumulados_cruzados [of
     "[\<lparr>procesada = Some True,
       analisis = Some \<lparr>responsabilidad_sugerida = Some ''vehiculo_a'',
                        confianza = Some (4/5)\<rparr>\<rparr>,
      \<lparr>procesada = Some True,
       analisis = Some \<lparr>responsabilidad_sugerida = Some ''vehiculo_b'',
                        confianza = Some (2/5)\<rparr>\<rparr>,
      \<lparr>procesada = Some False,
       analisis = Some \<lparr>responsabilidad_sugerida = Some ''vehiculo_a'',
                        confianza = Some (9/10)\<rparr>\<rparr>,
      \<lparr>procesada = Some True,
       analisis = Some \<lparr>responsabilidad_sugerida = Some ''compartida'',
                        confianza = None\<rparr>\<rparr>]"
     "[\<lparr>clasificacion = Some \<lparr>responsabilidad_sugerida = Some ''vehiculo_a'',
                              confianza = Some (1/5)\<rparr>\<rparr>,
      \<lparr>clasificacion = Some \<lparr>responsabilidad_sugerida = Some ''vehiculo_a'',
                              confianza = Some (3/5)\<rparr>\<rparr>]"]
  by (simp add: pesos_cruzados_def evidencias_contadas_def documentos_contados_def
      aporte_cruzado_def confianza_de_def)

end
